theory Spec2Isabelle
  imports Main "HOL-Library.AList"
begin

section \<open>JavaScript values, objects and the store\<close>

text \<open>
  The library is TypeScript compiled to JavaScript. Three things the properties below
  depend on are not visible in a purely functional reading of the code: object identity
  (the \<open>none\<close> variant is one shared object), exceptions (\<open>throw\<close> of an arbitrary
  value), and whether a callback is called at all. The model therefore keeps an explicit
  store of objects, addressed by position, and every operation is a function from the
  world before the call to an outcome and the world after it.
\<close>

type_synonym addr = nat

datatype val = Undefined | Null | Bool bool | Num int | Str string | Ref addr

text \<open>
  \<open>Object.create(Option.prototype)\<close> and \<open>new UnwrapError(..)\<close> make objects with a
  prototype and own properties, kept in assignment order. \<open>ErrorProto\<close> stands for an
  error object built by the caller with \<open>new Error(..)\<close>.
\<close>

datatype proto = OptionProto | UnwrapErrorProto | ErrorProto

datatype obj = Instance proto "(string \<times> val) list" | Array "val list"

text \<open>
  \<open>mock_calls\<close> is the call record of the test suite's \<open>jest.fn\<close> mocks: the library
  never reads or writes it.
\<close>

record world =
  heap :: "obj list"
  mock_calls :: "(string \<times> val list) list"

text \<open>
  An operation returns a value, throws a value, or is \<open>Stuck\<close>: it was applied to a
  value that the TypeScript signatures exclude (a property read on \<open>undefined\<close>, a
  dangling address), where JavaScript would raise a \<open>TypeError\<close> of its own.
\<close>

datatype 'a result = Return 'a | Throw val | Stuck

type_synonym 'a js = "world \<Rightarrow> 'a result \<times> world"

type_synonym fn = "val list \<Rightarrow> val js"

definition js_return :: "'a \<Rightarrow> 'a js" where
  "js_return x s = (Return x, s)"

definition js_throw :: "val \<Rightarrow> 'a js" where
  "js_throw e s = (Throw e, s)"

text \<open>Sequencing: nothing in the library catches, so a throw ends the whole call.\<close>

definition js_bind :: "'a js \<Rightarrow> ('a \<Rightarrow> 'b js) \<Rightarrow> 'b js" where
  "js_bind m k s =
     (case m s of
        (Return x, s') \<Rightarrow> k x s'
      | (Throw e, s') \<Rightarrow> (Throw e, s')
      | (Stuck, s') \<Rightarrow> (Stuck, s'))"

fun truthy :: "val \<Rightarrow> bool" where
  "truthy Undefined = False"
| "truthy Null = False"
| "truthy (Bool b) = b"
| "truthy (Num n) = (n \<noteq> 0)"
| "truthy (Str t) = (t \<noteq> [])"
| "truthy (Ref a) = True"

text \<open>A parameter that the caller did not pass is \<open>undefined\<close>.\<close>

definition arg :: "val list \<Rightarrow> nat \<Rightarrow> val" where
  "arg args i = (if i < length args then args ! i else Undefined)"

definition Object_create :: "proto \<Rightarrow> val js" where
  "Object_create p s =
     (Return (Ref (length (heap s))), s\<lparr>heap := heap s @ [Instance p []]\<rparr>)"

definition new_Array :: "val js" where
  "new_Array s = (Return (Ref (length (heap s))), s\<lparr>heap := heap s @ [Array []]\<rparr>)"

text \<open>
  Own data properties only: the library reads and writes \<open>isNone_\<close>, \<open>value\<close>,
  \<open>message\<close> and \<open>name\<close>, never a property inherited from a prototype.
\<close>

definition get_prop :: "val \<Rightarrow> string \<Rightarrow> val js" where
  "get_prop x k s =
     (case x of
        Ref a \<Rightarrow>
          (if a < length (heap s) then
             (case heap s ! a of
                Instance p props \<Rightarrow>
                  (Return (case map_of props k of None \<Rightarrow> Undefined | Some v \<Rightarrow> v), s)
              | Array xs \<Rightarrow> (Stuck, s))
           else (Stuck, s))
      | _ \<Rightarrow> (Stuck, s))"

definition set_prop :: "val \<Rightarrow> string \<Rightarrow> val \<Rightarrow> val js" where
  "set_prop x k v s =
     (case x of
        Ref a \<Rightarrow>
          (if a < length (heap s) then
             (case heap s ! a of
                Instance p props \<Rightarrow>
                  (Return v, s\<lparr>heap := (heap s)[a := Instance p (AList.update k v props)]\<rparr>)
              | Array xs \<Rightarrow> (Stuck, s))
           else (Stuck, s))
      | _ \<Rightarrow> (Stuck, s))"

text \<open>\<open>values.push(v)\<close> changes the array object in place and returns the new length.\<close>

definition Array_push :: "val \<Rightarrow> val \<Rightarrow> val js" where
  "Array_push x v s =
     (case x of
        Ref a \<Rightarrow>
          (if a < length (heap s) then
             (case heap s ! a of
                Array xs \<Rightarrow>
                  (Return (Num (int (length xs) + 1)), s\<lparr>heap := (heap s)[a := Array (xs @ [v])]\<rparr>)
              | Instance p props \<Rightarrow> (Stuck, s))
           else (Stuck, s))
      | _ \<Rightarrow> (Stuck, s))"

section \<open>The implementation class (second part of \<open>src/src/index.ts\<close>)\<close>

text \<open>
  \<^verbatim>\<open>
  export class UnwrapError extends Error {
    constructor(message: string) { super(message); this.name = "UnwrapError"; }
  }
  \<close>
  The \<open>stack\<close> property that the engine adds is not modelled.
\<close>

definition new_UnwrapError :: "string \<Rightarrow> val js" where
  "new_UnwrapError message =
     js_bind (Object_create UnwrapErrorProto) (\<lambda>this.
     js_bind (set_prop this ''message'' (Str message)) (\<lambda>_.
     js_bind (set_prop this ''name'' (Str ''UnwrapError'')) (\<lambda>_.
     js_return this)))"

text \<open>
  \<^verbatim>\<open>
  const NONE = (() => {
    const none = Object.create(Option.prototype);
    none.isNone_ = true;
    return none;
  })();
  \<close>
  The constant is built once, when the module is loaded. In the model this is the first
  allocation, so the shared object lives at address 0.
\<close>

definition NONE_init :: "val js" where
  "NONE_init =
     js_bind (Object_create OptionProto) (\<lambda>none.
     js_bind (set_prop none ''isNone_'' (Bool True)) (\<lambda>_.
     js_return none))"

definition NONE :: val where
  "NONE = Ref 0"

definition none_obj :: obj where
  "none_obj = Instance OptionProto [(''isNone_'', Bool True)]"

definition some_obj :: "val \<Rightarrow> obj" where
  "some_obj v = Instance OptionProto [(''isNone_'', Bool False), (''value'', v)]"

definition module_world :: world where
  "module_world = \<lparr>heap = [none_obj], mock_calls = []\<rparr>"

text \<open>
  \<^verbatim>\<open>
  static some<T>(value: T): Option<T> {
    const some = Object.create(Option.prototype);
    some.isNone_ = false;
    some.value = value;
    return some;
  }
  static none<T>(): Option<T> { return NONE; }
  \<close>
\<close>

definition OptionImpl_some :: "val \<Rightarrow> val js" where
  "OptionImpl_some v =
     js_bind (Object_create OptionProto) (\<lambda>some.
     js_bind (set_prop some ''isNone_'' (Bool False)) (\<lambda>_.
     js_bind (set_prop some ''value'' v) (\<lambda>_.
     js_return some)))"

definition OptionImpl_none :: "val js" where
  "OptionImpl_none = js_return NONE"

text \<open>
  A method call is resolved to the method of the implementation class: the receiver is
  taken to be an instance of that class, as the TypeScript types demand, and its class
  is not looked at. A receiver that is no object makes the first property read stuck.
  \<^verbatim>\<open>
  isNone(): boolean { return (this as any).isNone_; }
  isSome(): boolean { return !this.isNone(); }
  match(matcher) {
    if (this.isNone()) { return matcher.none(); }
    else { return matcher.some((this as any).value); }
  }
  \<close>
\<close>

definition isNone :: "val \<Rightarrow> val js" where
  "isNone this = get_prop this ''isNone_''"

definition isSome :: "val \<Rightarrow> val js" where
  "isSome this = js_bind (isNone this) (\<lambda>b. js_return (Bool (\<not> truthy b)))"

record matcher =
  none :: fn
  some :: fn

definition match :: "val \<Rightarrow> matcher \<Rightarrow> val js" where
  "match this m =
     js_bind (isNone this) (\<lambda>b.
       if truthy b then none m []
       else js_bind (get_prop this ''value'') (\<lambda>v. some m [v]))"

text \<open>
  \<^verbatim>\<open>
  map(mapper) {
    return this.match({
      none: () => (this as unknown) as Option<R>,
      some: value => Option.some(mapper(value)),
    });
  }
  ifSome(executor) { this.map(executor); }
  ifNone(executor) { if (this.isNone()) { executor(); } }
  \<close>
\<close>

definition map_Option :: "val \<Rightarrow> fn \<Rightarrow> val js" where
  "map_Option this mapper =
     match this
       \<lparr>none = (\<lambda>args. js_return this),
        some = (\<lambda>args. js_bind (mapper [arg args 0]) OptionImpl_some)\<rparr>"

definition ifSome :: "val \<Rightarrow> fn \<Rightarrow> val js" where
  "ifSome this executor = js_bind (map_Option this executor) (\<lambda>_. js_return Undefined)"

definition ifNone :: "val \<Rightarrow> fn \<Rightarrow> val js" where
  "ifNone this executor =
     js_bind (isNone this) (\<lambda>b.
       if truthy b then js_bind (executor []) (\<lambda>_. js_return Undefined)
       else js_return Undefined)"

text \<open>
  \<^verbatim>\<open>
  unwrap(): T { return this.expect("Tried to call unwrap() on Option.none()"); }
  expect(message: string | Error): T {
    return this.match({
      none: () => {
        const error =
          "string" === typeof message ? new UnwrapError(message) : message;
        throw error;
      },
      some: value => value,
    });
  }
  \<close>
\<close>

definition expect :: "val \<Rightarrow> val \<Rightarrow> val js" where
  "expect this message =
     match this
       \<lparr>none = (\<lambda>args.
          js_bind (case message of Str t \<Rightarrow> new_UnwrapError t | _ \<Rightarrow> js_return message)
            (\<lambda>error. js_throw error)),
        some = (\<lambda>args. js_return (arg args 0))\<rparr>"

definition unwrap :: "val \<Rightarrow> val js" where
  "unwrap this = expect this (Str ''Tried to call unwrap() on Option.none()'')"

text \<open>
  \<^verbatim>\<open>
  unwrapOr(defaultValue)   { return this.match({ none: () => defaultValue, some: value => value }); }
  unwrapOrElse(thunk)      { return this.match({ none: () => thunk(), some: value => value }); }
  andThen(flatMapper)      { return this.match({ none: () => Option.none(), some: flatMapper }); }
  \<close>
\<close>

definition unwrapOr :: "val \<Rightarrow> val \<Rightarrow> val js" where
  "unwrapOr this defaultValue =
     match this
       \<lparr>none = (\<lambda>args. js_return defaultValue),
        some = (\<lambda>args. js_return (arg args 0))\<rparr>"

definition unwrapOrElse :: "val \<Rightarrow> fn \<Rightarrow> val js" where
  "unwrapOrElse this defaultValueThunk =
     match this
       \<lparr>none = (\<lambda>args. defaultValueThunk []),
        some = (\<lambda>args. js_return (arg args 0))\<rparr>"

definition andThen :: "val \<Rightarrow> fn \<Rightarrow> val js" where
  "andThen this flatMapper =
     match this \<lparr>none = (\<lambda>args. OptionImpl_none), some = flatMapper\<rparr>"

text \<open>
  \<^verbatim>\<open>
  static all<T>(options: Option<T>[]): Option<T[]> {
    let values = [];
    for (let i = 0; i < options.length; i++) {
      const option = options[i];
      if (option.isSome()) { values.push((option as any).value); }
      else { return Option.none(); }
    }
    return Option.some(values);
  }
  \<close>
  The argument array is only read, so it is passed as the list of its elements; the
  loop over \<open>i\<close> is the recursion over that list, front to back. \<open>values\<close> is an
  array object of the store, changed in place by \<open>push\<close>.
\<close>

primrec all_loop :: "val list \<Rightarrow> val \<Rightarrow> val js" where
  "all_loop [] values = OptionImpl_some values"
| "all_loop (option # rest) values =
     js_bind (isSome option) (\<lambda>b.
       if truthy b then
         js_bind (get_prop option ''value'') (\<lambda>v.
         js_bind (Array_push values v) (\<lambda>_.
         all_loop rest values))
       else OptionImpl_none)"

definition OptionImpl_all :: "val list \<Rightarrow> val js" where
  "OptionImpl_all options = js_bind new_Array (\<lambda>values. all_loop options values)"

section \<open>The factory object (first part of \<open>src/src/index.ts\<close>)\<close>

text \<open>
  \<^verbatim>\<open>
  export const option = {
    some<T>(value: T): Option<T> { return OptionImpl.some(value); },
    none<T>(): Option<T> { return OptionImpl.none(); },
    all: optionDotAll,
  };
  \<close>
  \<open>optionDotAll\<close> has the body of the static method \<open>all\<close> above, with
  \<open>OptionImpl.none()\<close> and \<open>OptionImpl.some(values)\<close> for the two results.
\<close>

definition option_some :: "val \<Rightarrow> val js" where
  "option_some v = OptionImpl_some v"

definition option_none :: "val js" where
  "option_none = OptionImpl_none"

definition optionDotAll :: "val list \<Rightarrow> val js" where
  "optionDotAll options = js_bind new_Array (\<lambda>values. all_loop options values)"

section \<open>Combinators declared in the interface whose implementation is not in the sources\<close>

text \<open>
  The interface in \<open>src/src/index.ts\<close> declares \<open>orElse\<close>, \<open>filter\<close> and \<open>xor\<close>
  and \<open>src/test/Option.spec.ts\<close> exercises them, but the implementation class in the
  sources stops at \<open>andThen\<close>. The three definitions are written over \<open>match\<close>, as
  section 4.2 of the specification allows and as the class writes its own combinators.
\<close>

text \<open>
  Modelled from the spec: the implementation of \<open>orElse\<close> is missing. Specification,
  section 4.3: on a some-container \<open>orElse(f)\<close> returns \<open>this\<close> unchanged, \<open>f\<close> never
  invoked; on a none-container it returns \<open>f()\<close>.
\<close>

definition orElse :: "val \<Rightarrow> fn \<Rightarrow> val js" where
  "orElse this otherThunk =
     match this \<lparr>none = (\<lambda>args. otherThunk []), some = (\<lambda>args. js_return this)\<rparr>"

text \<open>
  Modelled from the spec: the implementation of \<open>filter\<close> is missing. Specification,
  section 4.3: on a some-container \<open>filter(pred)\<close> returns \<open>this\<close> if \<open>pred(v)\<close> is
  true, else none; on a none-container it returns none, \<open>pred\<close> never invoked.
\<close>

definition filter_Option :: "val \<Rightarrow> fn \<Rightarrow> val js" where
  "filter_Option this predicate =
     match this
       \<lparr>none = (\<lambda>args. OptionImpl_none),
        some = (\<lambda>args.
          js_bind (predicate [arg args 0]) (\<lambda>keep.
            if truthy keep then js_return this else OptionImpl_none))\<rparr>"

text \<open>
  Modelled from the spec: the implementation of \<open>xor\<close> is missing. Specification,
  section 4.3: on a some-container, if \<open>other\<close> is none, \<open>xor(other)\<close> returns \<open>this\<close>;
  if \<open>other\<close> is some, it returns none. On a none-container, if \<open>other\<close> is some, it
  returns \<open>other\<close>; if \<open>other\<close> is none, it returns none. The interface comment in
  \<open>src/src/index.ts\<close> says the same: the option that is some if exactly one of the
  two is, otherwise \<open>Option.none()\<close>.
\<close>

definition xor_Option :: "val \<Rightarrow> val \<Rightarrow> val js" where
  "xor_Option this other =
     match this
       \<lparr>none = (\<lambda>args.
          match other
            \<lparr>none = (\<lambda>args. OptionImpl_none), some = (\<lambda>args. js_return other)\<rparr>),
        some = (\<lambda>args.
          match other
            \<lparr>none = (\<lambda>args. js_return this), some = (\<lambda>args. OptionImpl_none)\<rparr>)\<rparr>"

section \<open>Mock callbacks of the test suite\<close>

text \<open>
  \<open>jest.fn(impl)\<close> in \<open>src/test/Option.spec.ts\<close> is a function that appends the
  argument list of every call to its call record and then runs \<open>impl\<close>. The
  implementation acts on the store; it has no access to the call record.
\<close>

definition jest_fn :: "string \<Rightarrow> (val list \<Rightarrow> obj list \<Rightarrow> val result \<times> obj list) \<Rightarrow> fn" where
  "jest_fn name impl args s =
     (case impl args (heap s) of
        (r, h) \<Rightarrow> (r, \<lparr>heap = h, mock_calls = mock_calls s @ [(name, args)]\<rparr>))"

section \<open>Containers in a world\<close>

text \<open>
  A container is what \<open>some\<close> and \<open>none\<close> build: \<open>holds_some s x v\<close> says that \<open>x\<close>
  refers, in the world \<open>s\<close>, to a some-object with payload \<open>v\<close>; \<open>holds_none s x\<close> that
  it refers to a none-object.
\<close>

definition holds_some :: "world \<Rightarrow> val \<Rightarrow> val \<Rightarrow> bool" where
  "holds_some s x v =
     (case x of Ref a \<Rightarrow> a < length (heap s) \<and> heap s ! a = some_obj v | _ \<Rightarrow> False)"

definition holds_none :: "world \<Rightarrow> val \<Rightarrow> bool" where
  "holds_none s x =
     (case x of Ref a \<Rightarrow> a < length (heap s) \<and> heap s ! a = none_obj | _ \<Rightarrow> False)"

definition unwrap_error_obj :: "string \<Rightarrow> obj" where
  "unwrap_error_obj t =
     Instance UnwrapErrorProto [(''message'', Str t), (''name'', Str ''UnwrapError'')]"

definition example_world :: world where
  "example_world = \<lparr>heap = [none_obj, some_obj (Num 42)], mock_calls = []\<rparr>"

text \<open>
  The store has the shared none-object at address 0 and nowhere else.
\<close>

definition canonical_none :: "world \<Rightarrow> bool" where
  "canonical_none s =
     (case heap s of [] \<Rightarrow> False | x # xs \<Rightarrow> x = none_obj \<and> none_obj \<notin> set xs)"

text \<open>An error object supplied by the caller: a reference to an instance of an error class.\<close>

definition holds_error :: "world \<Rightarrow> val \<Rightarrow> bool" where
  "holds_error s x =
     (case x of
        Ref a \<Rightarrow>
          a < length (heap s) \<and>
          (case heap s ! a of
             Instance p props \<Rightarrow> p = ErrorProto \<or> p = UnwrapErrorProto
           | Array xs \<Rightarrow> False)
      | _ \<Rightarrow> False)"

text \<open>
  An operation keeps the shared none-object canonical when it leads from every such
  store to another one.
\<close>

definition keeps_canonical :: "'a js \<Rightarrow> bool" where
  "keeps_canonical m = (\<forall>s. canonical_none s \<longrightarrow> canonical_none (snd (m s)))"

section \<open>Worlds and callbacks used as concrete inputs\<close>

text \<open>
  \<open>world3\<close> is the store after \<open>some(1)\<close>, \<open>some(2)\<close>, \<open>some(3)\<close>; \<open>error_world\<close>
  the one after \<open>some(42)\<close> and \<open>new Error("Oh noes!")\<close>. The callbacks are those of
  the test suite: \<open>x => x * 3\<close>, \<open>() => -1\<close>, \<open>v => Option.some(v)\<close>, and one
  that throws a new \<open>Error("boom")\<close>. \<open>times3\<close> is defined on numbers only.
\<close>

definition world3 :: world where
  "world3 =
     \<lparr>heap = [none_obj, some_obj (Num 1), some_obj (Num 2), some_obj (Num 3)],
      mock_calls = []\<rparr>"

definition error_world :: world where
  "error_world =
     \<lparr>heap = [none_obj, some_obj (Num 42), Instance ErrorProto [(''message'', Str ''Oh noes!'')]],
      mock_calls = []\<rparr>"

definition times3 :: "val list \<Rightarrow> obj list \<Rightarrow> val result \<times> obj list" where
  "times3 args h = (case arg args 0 of Num n \<Rightarrow> (Return (Num (n * 3)), h) | _ \<Rightarrow> (Stuck, h))"

definition minus_one :: "val list \<Rightarrow> obj list \<Rightarrow> val result \<times> obj list" where
  "minus_one args h = (Return (Num (- 1)), h)"

definition wrap_some :: "val list \<Rightarrow> obj list \<Rightarrow> val result \<times> obj list" where
  "wrap_some args h = (Return (Ref (length h)), h @ [some_obj (arg args 0)])"

definition failing_callback :: fn where
  "failing_callback args =
     js_bind (Object_create ErrorProto) (\<lambda>e.
     js_bind (set_prop e ''message'' (Str ''boom'')) (\<lambda>_.
     js_throw e))"

definition example_matcher :: matcher where
  "example_matcher = \<lparr>none = jest_fn ''none'' minus_one, some = jest_fn ''some'' times3\<rparr>"

section \<open>Basic facts\<close>

lemma NONE_init_module_world:
  "NONE_init \<lparr>heap = [], mock_calls = []\<rparr> = (Return NONE, module_world)"
  by (simp add: NONE_init_def js_bind_def Object_create_def set_prop_def js_return_def
      NONE_def module_world_def none_obj_def)

lemma OptionImpl_some_eq:
  "OptionImpl_some v s =
     (Return (Ref (length (heap s))), s\<lparr>heap := heap s @ [some_obj v]\<rparr>)"
  by (simp add: OptionImpl_some_def js_bind_def Object_create_def set_prop_def js_return_def
      some_obj_def)

lemma new_UnwrapError_eq:
  "new_UnwrapError t s =
     (Return (Ref (length (heap s))), s\<lparr>heap := heap s @ [unwrap_error_obj t]\<rparr>)"
  by (simp add: new_UnwrapError_def js_bind_def Object_create_def set_prop_def js_return_def
      unwrap_error_obj_def)

lemma example_world_built:
  "OptionImpl_some (Num 42) module_world = (Return (Ref 1), example_world)"
  by (simp add: OptionImpl_some_eq module_world_def example_world_def)

lemma holds_some_isNone:
  "holds_some s x v \<Longrightarrow> isNone x s = (Return (Bool False), s)"
  by (auto simp: holds_some_def isNone_def get_prop_def some_obj_def split: val.splits)

lemma holds_some_value:
  "holds_some s x v \<Longrightarrow> get_prop x ''value'' s = (Return v, s)"
  by (auto simp: holds_some_def get_prop_def some_obj_def split: val.splits)

lemma holds_none_isNone:
  "holds_none s x \<Longrightarrow> isNone x s = (Return (Bool True), s)"
  by (auto simp: holds_none_def isNone_def get_prop_def none_obj_def split: val.splits)

lemma match_some:
  "holds_some s x v \<Longrightarrow> match x m s = some m [v] s"
  by (simp add: match_def js_bind_def holds_some_isNone holds_some_value)

lemma match_none:
  "holds_none s x \<Longrightarrow> match x m s = none m [] s"
  by (simp add: match_def js_bind_def holds_none_isNone)

lemma holds_none_NONE_module: "holds_none module_world NONE"
  by (simp add: holds_none_def NONE_def module_world_def)

lemma holds_none_NONE_example: "holds_none example_world NONE"
  by (simp add: holds_none_def NONE_def example_world_def)

lemma holds_some_example: "holds_some example_world (Ref 1) (Num 42)"
  by (simp add: holds_some_def example_world_def)

lemma holds_none_NONE_error: "holds_none error_world NONE"
  by (simp add: holds_none_def NONE_def error_world_def)

lemma holds_some_error: "holds_some error_world (Ref 1) (Num 42)"
  by (simp add: holds_some_def error_world_def)

lemma holds_error_error: "holds_error error_world (Ref 2)"
  by (simp add: holds_error_def error_world_def)

lemma canonical_none_example: "canonical_none example_world"
  by (simp add: canonical_none_def example_world_def some_obj_def none_obj_def)

lemma times3_call:
  "jest_fn nm times3 [Num 42] example_world =
     (Return (Num 126), \<lparr>heap = [none_obj, some_obj (Num 42)], mock_calls = [(nm, [Num 42])]\<rparr>)"
  by (simp add: jest_fn_def times3_def arg_def example_world_def)

lemma failing_callback_call:
  "failing_callback args example_world =
     (Throw (Ref 2),
      \<lparr>heap = [none_obj, some_obj (Num 42), Instance ErrorProto [(''message'', Str ''boom'')]],
       mock_calls = []\<rparr>)"
  by (simp add: failing_callback_def js_bind_def Object_create_def set_prop_def js_throw_def
      example_world_def)

section \<open>Extraction: \<open>unwrap\<close> and \<open>expect\<close>\<close>

lemma expect_some:
  "holds_some s x v \<Longrightarrow> expect x message s = (Return v, s)"
  by (simp add: expect_def match_some js_return_def arg_def)

lemma expect_none_string:
  "holds_none s x \<Longrightarrow>
   expect x (Str t) s =
     (Throw (Ref (length (heap s))), s\<lparr>heap := heap s @ [unwrap_error_obj t]\<rparr>)"
  by (simp add: expect_def match_none js_bind_def new_UnwrapError_eq js_throw_def)

lemma expect_none_other:
  "holds_none s x \<Longrightarrow> \<forall>t. message \<noteq> Str t \<Longrightarrow> expect x message s = (Throw message, s)"
  by (cases message) (simp_all add: expect_def match_none js_bind_def js_return_def js_throw_def)

text \<open>
  C1 (as the code has it). \<open>unwrap()\<close> is \<open>expect()\<close> called with the fixed message
  \<open>"Tried to call unwrap() on Option.none()"\<close>: on a some-container it returns the
  payload and leaves the world unchanged; on a none-container it throws a newly
  allocated \<open>UnwrapError\<close> whose message is exactly that text.
\<close>

theorem unwrap_is_expect_fixed_message:
  "unwrap x s = expect x (Str ''Tried to call unwrap() on Option.none()'') s
   \<and> (holds_some s x v \<longrightarrow> unwrap x s = (Return v, s))
   \<and> (holds_none s x \<longrightarrow>
        unwrap x s =
          (Throw (Ref (length (heap s))),
           s\<lparr>heap := heap s @
              [unwrap_error_obj ''Tried to call unwrap() on Option.none()'']\<rparr>))"
  by (simp add: unwrap_def expect_some expect_none_string)

theorem unwrap_is_expect_fixed_message_witness:
  "holds_some example_world (Ref 1) (Num 42)
   \<and> unwrap (Ref 1) example_world = (Return (Num 42), example_world)
   \<and> holds_none module_world NONE
   \<and> unwrap NONE module_world =
       (Throw (Ref 1),
        \<lparr>heap = [none_obj, unwrap_error_obj ''Tried to call unwrap() on Option.none()''],
         mock_calls = []\<rparr>)"
proof -
  have a: "unwrap (Ref 1) example_world = (Return (Num 42), example_world)"
    using unwrap_is_expect_fixed_message [of "Ref 1" example_world "Num 42"]
      holds_some_example by blast
  have "unwrap NONE module_world =
          (Throw (Ref (length (heap module_world))),
           module_world\<lparr>heap := heap module_world @
              [unwrap_error_obj ''Tried to call unwrap() on Option.none()'']\<rparr>)"
    using unwrap_is_expect_fixed_message [of NONE module_world]
      holds_none_NONE_module by blast
  then have b: "unwrap NONE module_world =
       (Throw (Ref 1),
        \<lparr>heap = [none_obj, unwrap_error_obj ''Tried to call unwrap() on Option.none()''],
         mock_calls = []\<rparr>)"
    by (simp add: module_world_def)
  show ?thesis
    using a b holds_some_example holds_none_NONE_module by simp
qed

text \<open>
  C1 (as the specification words it) fails: the message thrown by \<open>none().unwrap()\<close> is
  not \<open>"Tried to call unwrap() on a none value"\<close>, and \<open>unwrap()\<close> differs from
  \<open>expect()\<close> called with that text.
\<close>

theorem unwrap_message_counterexample:
  "unwrap NONE module_world
     \<noteq> expect NONE (Str ''Tried to call unwrap() on a none value'') module_world
   \<and> unwrap NONE module_world
     \<noteq> (Throw (Ref 1),
        \<lparr>heap = [none_obj, unwrap_error_obj ''Tried to call unwrap() on a none value''],
         mock_calls = []\<rparr>)"
proof -
  have u: "unwrap NONE module_world =
       (Throw (Ref 1),
        \<lparr>heap = [none_obj, unwrap_error_obj ''Tried to call unwrap() on Option.none()''],
         mock_calls = []\<rparr>)"
    using expect_none_string [OF holds_none_NONE_module]
    by (simp add: unwrap_def module_world_def)
  have e: "expect NONE (Str ''Tried to call unwrap() on a none value'') module_world =
       (Throw (Ref 1),
        \<lparr>heap = [none_obj, unwrap_error_obj ''Tried to call unwrap() on a none value''],
         mock_calls = []\<rparr>)"
    using expect_none_string [OF holds_none_NONE_module]
    by (simp add: module_world_def)
  show ?thesis
    unfolding u e by (simp add: unwrap_error_obj_def)
qed

section \<open>Transposition: \<open>all\<close>\<close>

lemma isSome_some: "holds_some s x v \<Longrightarrow> isSome x s = (Return (Bool True), s)"
  by (simp add: isSome_def js_bind_def holds_some_isNone js_return_def)

lemma isSome_none: "holds_none s x \<Longrightarrow> isSome x s = (Return (Bool False), s)"
  by (simp add: isSome_def js_bind_def holds_none_isNone js_return_def)

lemma holds_some_push:
  "holds_some s x v \<Longrightarrow> a < length (heap s) \<Longrightarrow> heap s ! a = Array acc \<Longrightarrow>
   holds_some (s\<lparr>heap := (heap s)[a := Array acc']\<rparr>) x v"
  by (auto simp: holds_some_def some_obj_def nth_list_update split: val.splits)

lemma holds_none_push:
  "holds_none s x \<Longrightarrow> a < length (heap s) \<Longrightarrow> heap s ! a = Array acc \<Longrightarrow>
   holds_none (s\<lparr>heap := (heap s)[a := Array acc']\<rparr>) x"
  by (auto simp: holds_none_def none_obj_def nth_list_update split: val.splits)

lemma holds_some_alloc:
  "holds_some s x v \<Longrightarrow> holds_some (s\<lparr>heap := heap s @ extra\<rparr>) x v"
  by (auto simp: holds_some_def nth_append split: val.splits)

lemma holds_none_alloc:
  "holds_none s x \<Longrightarrow> holds_none (s\<lparr>heap := heap s @ extra\<rparr>) x"
  by (auto simp: holds_none_def nth_append split: val.splits)

lemma Array_push_eq:
  "a < length (heap s) \<Longrightarrow> heap s ! a = Array acc \<Longrightarrow>
   Array_push (Ref a) v s =
     (Return (Num (int (length acc) + 1)), s\<lparr>heap := (heap s)[a := Array (acc @ [v])]\<rparr>)"
  by (simp add: Array_push_def)

lemma all_loop_every_some:
  "list_all2 (holds_some s) xs vs \<Longrightarrow> a < length (heap s) \<Longrightarrow> heap s ! a = Array acc \<Longrightarrow>
   all_loop xs (Ref a) s =
     (Return (Ref (length (heap s))),
      s\<lparr>heap := (heap s)[a := Array (acc @ vs)] @ [some_obj (Ref a)]\<rparr>)"
proof (induction xs arbitrary: vs acc s)
  case Nil
  then have "(heap s)[a := Array acc] = heap s"
    by (metis list_update_id)
  with Nil show ?case
    by (simp add: OptionImpl_some_eq)
next
  case (Cons x xs)
  from Cons.prems(1) obtain v vs' where vs: "vs = v # vs'"
    and x: "holds_some s x v" and rest: "list_all2 (holds_some s) xs vs'"
    by (auto simp: list_all2_Cons1)
  let ?s1 = "s\<lparr>heap := (heap s)[a := Array (acc @ [v])]\<rparr>"
  have rest1: "list_all2 (holds_some ?s1) xs vs'"
    using rest Cons.prems(2,3)
    by (auto elim!: list_all2_mono intro: holds_some_push)
  have ih: "all_loop xs (Ref a) ?s1 =
     (Return (Ref (length (heap ?s1))),
      ?s1\<lparr>heap := (heap ?s1)[a := Array ((acc @ [v]) @ vs')] @ [some_obj (Ref a)]\<rparr>)"
    using Cons.prems(2) by (intro Cons.IH [OF rest1]) simp_all
  show ?case
    using ih Cons.prems(2,3)
    by (simp add: js_bind_def isSome_some [OF x] holds_some_value [OF x] Array_push_eq vs)
qed

lemma all_loop_first_none:
  "list_all2 (holds_some s) xs vs \<Longrightarrow> holds_none s n \<Longrightarrow>
   a < length (heap s) \<Longrightarrow> heap s ! a = Array acc \<Longrightarrow>
   all_loop (xs @ n # ys) (Ref a) s =
     (Return NONE, s\<lparr>heap := (heap s)[a := Array (acc @ vs)]\<rparr>)"
proof (induction xs arbitrary: vs acc s)
  case Nil
  then have "(heap s)[a := Array acc] = heap s"
    by (metis list_update_id)
  with Nil show ?case
    by (simp add: js_bind_def isSome_none OptionImpl_none_def js_return_def)
next
  case (Cons x xs)
  from Cons.prems(1) obtain v vs' where vs: "vs = v # vs'"
    and x: "holds_some s x v" and rest: "list_all2 (holds_some s) xs vs'"
    by (auto simp: list_all2_Cons1)
  let ?s1 = "s\<lparr>heap := (heap s)[a := Array (acc @ [v])]\<rparr>"
  have rest1: "list_all2 (holds_some ?s1) xs vs'"
    using rest Cons.prems(3,4)
    by (auto elim!: list_all2_mono intro: holds_some_push)
  have n1: "holds_none ?s1 n"
    using Cons.prems(2,3,4) by (rule holds_none_push)
  have ih: "all_loop (xs @ n # ys) (Ref a) ?s1 =
     (Return NONE, ?s1\<lparr>heap := (heap ?s1)[a := Array ((acc @ [v]) @ vs')]\<rparr>)"
    using Cons.prems(3) by (intro Cons.IH [OF rest1 n1]) simp_all
  show ?case
    using ih Cons.prems(3,4)
    by (simp add: js_bind_def isSome_some [OF x] holds_some_value [OF x] Array_push_eq vs)
qed

lemma optionDotAll_every_some:
  "list_all2 (holds_some s) xs vs \<Longrightarrow>
   optionDotAll xs s =
     (Return (Ref (Suc (length (heap s)))),
      s\<lparr>heap := heap s @ [Array vs, some_obj (Ref (length (heap s)))]\<rparr>)"
proof -
  assume h: "list_all2 (holds_some s) xs vs"
  let ?s1 = "s\<lparr>heap := heap s @ [Array []]\<rparr>"
  have h1: "list_all2 (holds_some ?s1) xs vs"
    using h by (auto elim!: list_all2_mono intro: holds_some_alloc)
  have "all_loop xs (Ref (length (heap s))) ?s1 =
     (Return (Ref (length (heap ?s1))),
      ?s1\<lparr>heap := (heap ?s1)[length (heap s) := Array ([] @ vs)] @ [some_obj (Ref (length (heap s)))]\<rparr>)"
    by (intro all_loop_every_some [OF h1]) simp_all
  then show ?thesis
    by (simp add: optionDotAll_def js_bind_def new_Array_def)
qed

lemma optionDotAll_first_none:
  "list_all2 (holds_some s) xs vs \<Longrightarrow> holds_none s n \<Longrightarrow>
   optionDotAll (xs @ n # ys) s = (Return NONE, s\<lparr>heap := heap s @ [Array vs]\<rparr>)"
proof -
  assume h: "list_all2 (holds_some s) xs vs" and n: "holds_none s n"
  let ?s1 = "s\<lparr>heap := heap s @ [Array []]\<rparr>"
  have h1: "list_all2 (holds_some ?s1) xs vs"
    using h by (auto elim!: list_all2_mono intro: holds_some_alloc)
  have n1: "holds_none ?s1 n" using n by (rule holds_none_alloc)
  have "all_loop (xs @ n # ys) (Ref (length (heap s))) ?s1 =
     (Return NONE, ?s1\<lparr>heap := (heap ?s1)[length (heap s) := Array ([] @ vs)]\<rparr>)"
    by (intro all_loop_first_none [OF h1 n1]) simp_all
  then show ?thesis
    by (simp add: optionDotAll_def js_bind_def new_Array_def)
qed

lemma OptionImpl_all_optionDotAll: "OptionImpl_all = optionDotAll"
  by (simp add: fun_eq_iff OptionImpl_all_def optionDotAll_def)

lemma world3_some:
  "holds_some world3 (Ref 1) (Num 1)" "holds_some world3 (Ref 2) (Num 2)"
  "holds_some world3 (Ref 3) (Num 3)" "holds_none world3 NONE"
  by (simp_all add: holds_some_def holds_none_def world3_def NONE_def)

text \<open>
  C2. \<open>all\<close> scans the sequence in order. If the elements before the first
  none-container \<open>n\<close> are some-containers with payloads \<open>vs\<close>, the result is the shared
  none and the only change to the store is the scratch array holding \<open>vs\<close>: whatever
  follows \<open>n\<close> (the list \<open>ys\<close> is arbitrary, also values on which an inspection would
  be stuck) has no influence, so it is neither inspected nor unwrapped. If every element
  is a some-container, the result is a new some-container whose payload is a new array
  of the payloads in input order; for the empty sequence that array is empty. The static
  method \<open>all\<close> of the implementation class and \<open>optionDotAll\<close> of the factory agree.
  Where the module has been loaded, \<open>NONE\<close> still refers to the none-object afterwards.
\<close>

theorem optionDotAll_scans_in_order:
  "(list_all2 (holds_some s) xs vs \<and> holds_none s n \<longrightarrow>
      optionDotAll (xs @ n # ys) s = (Return NONE, s\<lparr>heap := heap s @ [Array vs]\<rparr>))
   \<and> (list_all2 (holds_some s) xs vs \<longrightarrow>
      optionDotAll xs s =
        (Return (Ref (Suc (length (heap s)))),
         s\<lparr>heap := heap s @ [Array vs, some_obj (Ref (length (heap s)))]\<rparr>))
   \<and> optionDotAll [] s =
        (Return (Ref (Suc (length (heap s)))),
         s\<lparr>heap := heap s @ [Array [], some_obj (Ref (length (heap s)))]\<rparr>)
   \<and> OptionImpl_all zs s = optionDotAll zs s
   \<and> (holds_none s NONE \<longrightarrow> holds_none (s\<lparr>heap := heap s @ [Array vs]\<rparr>) NONE)"
proof (intro conjI impI)
  show "optionDotAll [] s =
        (Return (Ref (Suc (length (heap s)))),
         s\<lparr>heap := heap s @ [Array [], some_obj (Ref (length (heap s)))]\<rparr>)"
    using optionDotAll_every_some [of s "[]" "[]"] by simp
qed (simp_all add: optionDotAll_first_none optionDotAll_every_some OptionImpl_all_optionDotAll
    holds_none_alloc)

theorem optionDotAll_scans_in_order_witness:
  "list_all2 (holds_some world3) [Ref 1] [Num 1] \<and> holds_none world3 NONE
   \<and> optionDotAll [Ref 1, NONE, Undefined] world3 =
       (Return NONE,
        \<lparr>heap = [none_obj, some_obj (Num 1), some_obj (Num 2), some_obj (Num 3),
                 Array [Num 1]],
         mock_calls = []\<rparr>)
   \<and> list_all2 (holds_some world3) [Ref 1, Ref 2, Ref 3] [Num 1, Num 2, Num 3]
   \<and> optionDotAll [Ref 1, Ref 2, Ref 3] world3 =
       (Return (Ref 5),
        \<lparr>heap = [none_obj, some_obj (Num 1), some_obj (Num 2), some_obj (Num 3),
                 Array [Num 1, Num 2, Num 3], some_obj (Ref 4)],
         mock_calls = []\<rparr>)"
proof -
  have a: "list_all2 (holds_some world3) [Ref 1] [Num 1]"
    using world3_some by simp
  have b: "list_all2 (holds_some world3) [Ref 1, Ref 2, Ref 3] [Num 1, Num 2, Num 3]"
    using world3_some by simp
  have "optionDotAll ([Ref 1] @ NONE # [Undefined]) world3 =
          (Return NONE, world3\<lparr>heap := heap world3 @ [Array [Num 1]]\<rparr>)"
    using optionDotAll_scans_in_order [of world3 "[Ref 1]" "[Num 1]" NONE "[Undefined]"]
      a world3_some(4) by blast
  then have c: "optionDotAll [Ref 1, NONE, Undefined] world3 =
       (Return NONE,
        \<lparr>heap = [none_obj, some_obj (Num 1), some_obj (Num 2), some_obj (Num 3),
                 Array [Num 1]],
         mock_calls = []\<rparr>)"
    by (simp add: world3_def)
  have "optionDotAll [Ref 1, Ref 2, Ref 3] world3 =
        (Return (Ref (Suc (length (heap world3)))),
         world3\<lparr>heap := heap world3 @
            [Array [Num 1, Num 2, Num 3], some_obj (Ref (length (heap world3)))]\<rparr>)"
    using optionDotAll_scans_in_order [of world3 "[Ref 1, Ref 2, Ref 3]" "[Num 1, Num 2, Num 3]"]
      b by blast
  then have d: "optionDotAll [Ref 1, Ref 2, Ref 3] world3 =
       (Return (Ref 5),
        \<lparr>heap = [none_obj, some_obj (Num 1), some_obj (Num 2), some_obj (Num 3),
                 Array [Num 1, Num 2, Num 3], some_obj (Ref 4)],
         mock_calls = []\<rparr>)"
    by (simp add: world3_def eval_nat_numeral)
  show ?thesis using a b c d world3_some(4) by blast
qed

text \<open>
  An element in front of the first none-container is inspected: if it is not a container,
  the call is stuck there. Behind the first none-container the same value does no harm,
  as the previous theorem shows for \<open>[some(1), none(), undefined]\<close>.
\<close>

lemma optionDotAll_inspects_up_to_first_none:
  "optionDotAll [Ref 1, Undefined, NONE] world3 =
     (Stuck,
      \<lparr>heap = [none_obj, some_obj (Num 1), some_obj (Num 2), some_obj (Num 3), Array [Num 1]],
       mock_calls = []\<rparr>)"
  by (simp add: optionDotAll_def js_bind_def new_Array_def world3_def isSome_def isNone_def
      get_prop_def some_obj_def js_return_def Array_push_def)

section \<open>Dispatch and the combinators\<close>

lemma jest_fn_calls:
  "mock_calls (snd (jest_fn name impl args s)) = mock_calls s @ [(name, args)]"
  by (simp add: jest_fn_def split: prod.splits)

text \<open>
  C3. \<open>match\<close> on a some-container with payload \<open>v\<close> is exactly one call of the
  some-callback with the argument list \<open>[v]\<close>; on a none-container it is exactly one
  call of the none-callback with no arguments. Outcome and final world are those of that
  single call. With mock callbacks the call record grows by that one call and by nothing
  else, so the other callback is not invoked.
\<close>

theorem match_invokes_exactly_one:
  "(holds_some s x v \<longrightarrow> match x m s = some m [v] s)
   \<and> (holds_none s x \<longrightarrow> match x m s = none m [] s)
   \<and> (holds_some s x v \<longrightarrow>
        mock_calls (snd (match x \<lparr>none = jest_fn nn gn, some = jest_fn ns gs\<rparr> s)) =
          mock_calls s @ [(ns, [v])])
   \<and> (holds_none s x \<longrightarrow>
        mock_calls (snd (match x \<lparr>none = jest_fn nn gn, some = jest_fn ns gs\<rparr> s)) =
          mock_calls s @ [(nn, [])])"
  by (simp add: match_some match_none jest_fn_calls)

theorem match_invokes_exactly_one_witness:
  "holds_some example_world (Ref 1) (Num 42)
   \<and> match (Ref 1) example_matcher example_world =
       (Return (Num 126),
        \<lparr>heap = [none_obj, some_obj (Num 42)], mock_calls = [(''some'', [Num 42])]\<rparr>)
   \<and> holds_none example_world NONE
   \<and> match NONE example_matcher example_world =
       (Return (Num (- 1)),
        \<lparr>heap = [none_obj, some_obj (Num 42)], mock_calls = [(''none'', [])]\<rparr>)"
proof -
  have "match (Ref 1) example_matcher example_world =
          some example_matcher [Num 42] example_world"
    using match_invokes_exactly_one [of example_world "Ref 1" "Num 42" example_matcher]
      holds_some_example by blast
  then have a: "match (Ref 1) example_matcher example_world =
       (Return (Num 126),
        \<lparr>heap = [none_obj, some_obj (Num 42)], mock_calls = [(''some'', [Num 42])]\<rparr>)"
    by (simp add: example_matcher_def times3_call)
  have "match NONE example_matcher example_world = none example_matcher [] example_world"
    using match_invokes_exactly_one [of example_world NONE _ example_matcher]
      holds_none_NONE_example by blast
  then have b: "match NONE example_matcher example_world =
       (Return (Num (- 1)),
        \<lparr>heap = [none_obj, some_obj (Num 42)], mock_calls = [(''none'', [])]\<rparr>)"
    by (simp add: example_matcher_def jest_fn_def minus_one_def example_world_def)
  show ?thesis
    using a b holds_some_example holds_none_NONE_example by blast
qed

text \<open>
  C4. \<open>some(v).map(f)\<close> runs \<open>f(v)\<close> and wraps its result in a new some-container;
  \<open>none().map(f)\<close> returns the receiver itself and leaves the world, call record
  included, as it was, so \<open>f\<close> is not invoked.
\<close>

theorem map_Option_some_none:
  "(holds_some s x v \<longrightarrow> map_Option x f s = js_bind (f [v]) OptionImpl_some s)
   \<and> (holds_some s x v \<and> f [v] s = (Return r, s') \<longrightarrow>
        map_Option x f s = (Return (Ref (length (heap s'))), s'\<lparr>heap := heap s' @ [some_obj r]\<rparr>)
        \<and> holds_some (s'\<lparr>heap := heap s' @ [some_obj r]\<rparr>) (Ref (length (heap s'))) r)
   \<and> (holds_none s x \<longrightarrow> map_Option x f s = (Return x, s))
   \<and> (holds_none s x \<longrightarrow>
        mock_calls (snd (map_Option x (jest_fn nm g) s)) = mock_calls s)"
  by (auto simp: map_Option_def match_some match_none arg_def js_return_def js_bind_def
      OptionImpl_some_eq holds_some_def split: prod.splits result.splits)

theorem map_Option_some_none_witness:
  "holds_some example_world (Ref 1) (Num 42)
   \<and> map_Option (Ref 1) (jest_fn ''mapper'' times3) example_world =
       (Return (Ref 2),
        \<lparr>heap = [none_obj, some_obj (Num 42), some_obj (Num 126)],
         mock_calls = [(''mapper'', [Num 42])]\<rparr>)
   \<and> holds_none example_world NONE
   \<and> map_Option NONE (jest_fn ''mapper'' times3) example_world = (Return NONE, example_world)"
proof -
  let ?s' = "\<lparr>heap = [none_obj, some_obj (Num 42)], mock_calls = [(''mapper'', [Num 42])]\<rparr>"
  have "map_Option (Ref 1) (jest_fn ''mapper'' times3) example_world =
          (Return (Ref (length (heap ?s'))), ?s'\<lparr>heap := heap ?s' @ [some_obj (Num 126)]\<rparr>)"
    using map_Option_some_none [of example_world "Ref 1" "Num 42" "jest_fn ''mapper'' times3"
        "Num 126" ?s']
      holds_some_example times3_call [of "''mapper''"] by blast
  then have a: "map_Option (Ref 1) (jest_fn ''mapper'' times3) example_world =
       (Return (Ref 2),
        \<lparr>heap = [none_obj, some_obj (Num 42), some_obj (Num 126)],
         mock_calls = [(''mapper'', [Num 42])]\<rparr>)"
    by simp
  have b: "map_Option NONE (jest_fn ''mapper'' times3) example_world = (Return NONE, example_world)"
    using map_Option_some_none [of example_world NONE _ "jest_fn ''mapper'' times3"]
      holds_none_NONE_example by blast
  show ?thesis
    using a b holds_some_example holds_none_NONE_example by blast
qed

text \<open>
  C8. \<open>andThen\<close> on a none-container returns the shared none and leaves the world
  unchanged (the callback is not invoked); on \<open>some(v)\<close> it is exactly the call
  \<open>f(v)\<close>, whose result is returned as it is, and a mock callback records exactly one
  call, with the argument list \<open>[v]\<close>.
\<close>

theorem andThen_lazy_no_rewrap:
  "(holds_none s x \<longrightarrow> andThen x f s = (Return NONE, s))
   \<and> (holds_some s x v \<longrightarrow> andThen x f s = f [v] s)
   \<and> (holds_none s x \<longrightarrow> mock_calls (snd (andThen x (jest_fn nm g) s)) = mock_calls s)
   \<and> (holds_some s x v \<longrightarrow>
        mock_calls (snd (andThen x (jest_fn nm g) s)) = mock_calls s @ [(nm, [v])])"
  by (simp add: andThen_def match_some match_none OptionImpl_none_def js_return_def
      jest_fn_calls)

theorem andThen_lazy_no_rewrap_witness:
  "holds_none example_world NONE
   \<and> andThen NONE (jest_fn ''flatMapper'' wrap_some) example_world = (Return NONE, example_world)
   \<and> holds_some example_world (Ref 1) (Num 42)
   \<and> andThen (Ref 1) (jest_fn ''flatMapper'' wrap_some) example_world =
       (Return (Ref 2),
        \<lparr>heap = [none_obj, some_obj (Num 42), some_obj (Num 42)],
         mock_calls = [(''flatMapper'', [Num 42])]\<rparr>)"
proof -
  have a: "andThen NONE (jest_fn ''flatMapper'' wrap_some) example_world =
       (Return NONE, example_world)"
    using andThen_lazy_no_rewrap [of example_world NONE "jest_fn ''flatMapper'' wrap_some"]
      holds_none_NONE_example by blast
  have "andThen (Ref 1) (jest_fn ''flatMapper'' wrap_some) example_world =
          jest_fn ''flatMapper'' wrap_some [Num 42] example_world"
    using andThen_lazy_no_rewrap [of example_world "Ref 1" "jest_fn ''flatMapper'' wrap_some"
        "Num 42"]
      holds_some_example by blast
  then have b: "andThen (Ref 1) (jest_fn ''flatMapper'' wrap_some) example_world =
       (Return (Ref 2),
        \<lparr>heap = [none_obj, some_obj (Num 42), some_obj (Num 42)],
         mock_calls = [(''flatMapper'', [Num 42])]\<rparr>)"
    by (simp add: jest_fn_def wrap_some_def arg_def example_world_def)
  show ?thesis
    using a b holds_some_example holds_none_NONE_example by blast
qed

lemma holds_error_not_Str: "holds_error s e \<Longrightarrow> e \<noteq> Str t"
  by (auto simp: holds_error_def)

text \<open>
  C6. On a none-container \<open>expect\<close> with a string throws a reference to a newly
  allocated \<open>UnwrapError\<close> with that message; with an error object it throws the very
  reference it was given and leaves the store unchanged. On a some-container both forms
  return the payload and change nothing.
\<close>

theorem expect_string_wraps_error_rethrows:
  "(holds_none s x \<longrightarrow>
      expect x (Str t) s =
        (Throw (Ref (length (heap s))), s\<lparr>heap := heap s @ [unwrap_error_obj t]\<rparr>))
   \<and> (holds_none s x \<and> holds_error s e \<longrightarrow> expect x e s = (Throw e, s))
   \<and> (holds_some s x v \<longrightarrow> expect x (Str t) s = (Return v, s) \<and> expect x e s = (Return v, s))"
  by (auto simp: expect_some expect_none_string expect_none_other holds_error_not_Str)

theorem expect_string_wraps_error_rethrows_witness:
  "holds_none error_world NONE
   \<and> expect NONE (Str ''Oh noes!'') error_world =
       (Throw (Ref 3),
        \<lparr>heap = [none_obj, some_obj (Num 42),
                 Instance ErrorProto [(''message'', Str ''Oh noes!'')],
                 unwrap_error_obj ''Oh noes!''],
         mock_calls = []\<rparr>)
   \<and> holds_error error_world (Ref 2)
   \<and> expect NONE (Ref 2) error_world = (Throw (Ref 2), error_world)
   \<and> holds_some error_world (Ref 1) (Num 42)
   \<and> expect (Ref 1) (Ref 2) error_world = (Return (Num 42), error_world)"
proof -
  have "expect NONE (Str ''Oh noes!'') error_world =
          (Throw (Ref (length (heap error_world))),
           error_world\<lparr>heap := heap error_world @ [unwrap_error_obj ''Oh noes!'']\<rparr>)"
    using expect_string_wraps_error_rethrows [of error_world NONE "''Oh noes!''"]
      holds_none_NONE_error by blast
  then have a: "expect NONE (Str ''Oh noes!'') error_world =
       (Throw (Ref 3),
        \<lparr>heap = [none_obj, some_obj (Num 42),
                 Instance ErrorProto [(''message'', Str ''Oh noes!'')],
                 unwrap_error_obj ''Oh noes!''],
         mock_calls = []\<rparr>)"
    by (simp add: error_world_def eval_nat_numeral)
  have b: "expect NONE (Ref 2) error_world = (Throw (Ref 2), error_world)"
    using expect_string_wraps_error_rethrows [of error_world NONE _ "Ref 2"]
      holds_none_NONE_error holds_error_error by blast
  have c: "expect (Ref 1) (Ref 2) error_world = (Return (Num 42), error_world)"
    using expect_string_wraps_error_rethrows [of error_world "Ref 1" _ "Ref 2" "Num 42"]
      holds_some_error by blast
  show ?thesis
    using a b c holds_none_NONE_error holds_error_error holds_some_error by blast
qed

text \<open>
  C10. On a none-container the only test \<open>expect\<close> makes on its argument is whether it
  is a string: every argument that is not a string, of whatever kind, is thrown as it is
  with the store unchanged; a string is wrapped in a new \<open>UnwrapError\<close>.
\<close>

theorem expect_dispatch_on_string:
  "(holds_none s x \<and> (\<forall>t. message \<noteq> Str t) \<longrightarrow> expect x message s = (Throw message, s))
   \<and> (holds_none s x \<longrightarrow>
        expect x (Str t) s =
          (Throw (Ref (length (heap s))), s\<lparr>heap := heap s @ [unwrap_error_obj t]\<rparr>))"
  by (auto simp: expect_none_string expect_none_other)

theorem expect_dispatch_on_string_witness:
  "holds_none example_world NONE
   \<and> expect NONE (Num 7) example_world = (Throw (Num 7), example_world)
   \<and> expect NONE Undefined example_world = (Throw Undefined, example_world)
   \<and> expect NONE (Str ''7'') example_world =
       (Throw (Ref 2),
        \<lparr>heap = [none_obj, some_obj (Num 42), unwrap_error_obj ''7''], mock_calls = []\<rparr>)"
proof -
  have a: "expect NONE (Num 7) example_world = (Throw (Num 7), example_world)"
    using expect_dispatch_on_string [of example_world NONE "Num 7"]
      holds_none_NONE_example by simp
  have b: "expect NONE Undefined example_world = (Throw Undefined, example_world)"
    using expect_dispatch_on_string [of example_world NONE Undefined]
      holds_none_NONE_example by simp
  have "expect NONE (Str ''7'') example_world =
          (Throw (Ref (length (heap example_world))),
           example_world\<lparr>heap := heap example_world @ [unwrap_error_obj ''7'']\<rparr>)"
    using expect_dispatch_on_string [of example_world NONE _ "''7''"]
      holds_none_NONE_example by blast
  then have c: "expect NONE (Str ''7'') example_world =
       (Throw (Ref 2),
        \<lparr>heap = [none_obj, some_obj (Num 42), unwrap_error_obj ''7''], mock_calls = []\<rparr>)"
    by (simp add: example_world_def)
  show ?thesis
    using a b c holds_none_NONE_example by blast
qed

text \<open>
  C7. \<open>xor\<close>: some/some gives none, some/none gives the receiver, none/some gives the
  argument, none/none gives none.
\<close>

theorem xor_Option_cases:
  "(holds_some s a x \<and> holds_some s b y \<longrightarrow> xor_Option a b s = (Return NONE, s))
   \<and> (holds_some s a x \<and> holds_none s b \<longrightarrow> xor_Option a b s = (Return a, s))
   \<and> (holds_none s a \<and> holds_some s b y \<longrightarrow> xor_Option a b s = (Return b, s))
   \<and> (holds_none s a \<and> holds_none s b \<longrightarrow> xor_Option a b s = (Return NONE, s))"
  by (auto simp: xor_Option_def match_some match_none OptionImpl_none_def js_return_def)

theorem xor_Option_cases_witness:
  "holds_some world3 (Ref 1) (Num 1) \<and> holds_some world3 (Ref 2) (Num 2)
   \<and> holds_none world3 NONE
   \<and> xor_Option (Ref 1) (Ref 2) world3 = (Return NONE, world3)
   \<and> xor_Option (Ref 1) NONE world3 = (Return (Ref 1), world3)
   \<and> xor_Option NONE (Ref 2) world3 = (Return (Ref 2), world3)
   \<and> xor_Option NONE NONE world3 = (Return NONE, world3)"
  using xor_Option_cases [of world3 "Ref 1" "Num 1" "Ref 2" "Num 2"]
    xor_Option_cases [of world3 "Ref 1" "Num 1" NONE]
    xor_Option_cases [of world3 NONE _ "Ref 2" "Num 2"]
    xor_Option_cases [of world3 NONE _ NONE]
    world3_some
  by blast

text \<open>
  C9. When the callback that a combinator invokes throws \<open>e\<close> and ends in the world
  \<open>s'\<close>, the combinator throws the same \<open>e\<close> and ends in the same world: the failure is
  not caught, wrapped or changed. This covers \<open>match\<close>, \<open>map\<close>, \<open>ifSome\<close>,
  \<open>andThen\<close>, \<open>filter\<close> (callback called on a some-container) and \<open>match\<close>,
  \<open>ifNone\<close>, \<open>unwrapOrElse\<close>, \<open>orElse\<close> (callback called on a none-container).
\<close>

theorem callback_failure_propagates:
  "(holds_some s x v \<and> f [v] s = (Throw e, s') \<longrightarrow>
      match x \<lparr>none = g, some = f\<rparr> s = (Throw e, s')
      \<and> map_Option x f s = (Throw e, s')
      \<and> ifSome x f s = (Throw e, s')
      \<and> andThen x f s = (Throw e, s')
      \<and> filter_Option x f s = (Throw e, s'))
   \<and> (holds_none s x \<and> f [] s = (Throw e, s') \<longrightarrow>
      match x \<lparr>none = f, some = g\<rparr> s = (Throw e, s')
      \<and> ifNone x f s = (Throw e, s')
      \<and> unwrapOrElse x f s = (Throw e, s')
      \<and> orElse x f s = (Throw e, s'))"
  by (auto simp: match_some match_none map_Option_def ifSome_def andThen_def filter_Option_def
      ifNone_def unwrapOrElse_def orElse_def js_bind_def arg_def holds_none_isNone)

theorem callback_failure_propagates_witness:
  "holds_some example_world (Ref 1) (Num 42)
   \<and> map_Option (Ref 1) failing_callback example_world =
       (Throw (Ref 2),
        \<lparr>heap = [none_obj, some_obj (Num 42), Instance ErrorProto [(''message'', Str ''boom'')]],
         mock_calls = []\<rparr>)
   \<and> holds_none example_world NONE
   \<and> unwrapOrElse NONE failing_callback example_world =
       (Throw (Ref 2),
        \<lparr>heap = [none_obj, some_obj (Num 42), Instance ErrorProto [(''message'', Str ''boom'')]],
         mock_calls = []\<rparr>)"
  using callback_failure_propagates [of example_world "Ref 1" "Num 42" failing_callback "Ref 2"
      "\<lparr>heap = [none_obj, some_obj (Num 42), Instance ErrorProto [(''message'', Str ''boom'')]],
        mock_calls = []\<rparr>"]
    callback_failure_propagates [of example_world NONE _ failing_callback "Ref 2"
      "\<lparr>heap = [none_obj, some_obj (Num 42), Instance ErrorProto [(''message'', Str ''boom'')]],
        mock_calls = []\<rparr>"]
    failing_callback_call holds_some_example holds_none_NONE_example
  by blast

section \<open>The shared none-object\<close>

lemma canonical_none_module_world: "canonical_none module_world"
  by (simp add: canonical_none_def module_world_def)

lemma canonical_none_unique:
  assumes "canonical_none s" "holds_none s x"
  shows "x = NONE"
proof -
  from assms(2) obtain a where x: "x = Ref a" and a: "a < length (heap s)"
    and o: "heap s ! a = none_obj"
    by (auto simp: holds_none_def split: val.splits)
  from assms(1) obtain y ys where h: "heap s = y # ys" and ys: "none_obj \<notin> set ys"
    by (auto simp: canonical_none_def split: list.splits)
  have "a = 0"
  proof (rule ccontr)
    assume "a \<noteq> 0"
    then obtain b where "a = Suc b" by (cases a) auto
    with a o h have "none_obj \<in> set ys" by (auto simp: in_set_conv_nth)
    with ys show False by simp
  qed
  with x show ?thesis by (simp add: NONE_def)
qed

lemma canonical_none_alloc:
  "canonical_none s \<Longrightarrow> x \<noteq> none_obj \<Longrightarrow> canonical_none (s\<lparr>heap := heap s @ [x]\<rparr>)"
  by (auto simp: canonical_none_def split: list.splits)

lemma canonical_none_push:
  assumes "canonical_none s" "a < length (heap s)" "heap s ! a = Array xs"
  shows "canonical_none (s\<lparr>heap := (heap s)[a := Array ys]\<rparr>)"
proof -
  from assms(1) obtain y zs where h: "heap s = y # zs" and y: "y = none_obj"
    and zs: "none_obj \<notin> set zs"
    by (auto simp: canonical_none_def split: list.splits)
  from assms(3) h y obtain b where a: "a = Suc b"
    by (cases a) (auto simp: none_obj_def)
  have "set (zs[b := Array ys]) \<subseteq> insert (Array ys) (set zs)"
    by (rule set_update_subset_insert)
  with zs have "none_obj \<notin> set (zs[b := Array ys])"
    by (auto simp: none_obj_def)
  with h y a show ?thesis
    by (simp add: canonical_none_def)
qed

lemma keeps_return: "keeps_canonical (js_return x)"
  by (simp add: keeps_canonical_def js_return_def)

lemma keeps_throw: "keeps_canonical (js_throw e)"
  by (simp add: keeps_canonical_def js_throw_def)

lemma keeps_bind:
  "keeps_canonical m \<Longrightarrow> (\<And>x. keeps_canonical (k x)) \<Longrightarrow> keeps_canonical (js_bind m k)"
  unfolding keeps_canonical_def js_bind_def
  by (auto split: prod.splits result.splits)

lemma keeps_get_prop: "keeps_canonical (get_prop x k)"
  by (simp add: keeps_canonical_def get_prop_def split: val.splits obj.splits)

lemma keeps_isNone: "keeps_canonical (isNone x)"
  by (simp add: isNone_def keeps_get_prop)

lemma keeps_isSome: "keeps_canonical (isSome x)"
  by (simp add: isSome_def keeps_bind keeps_isNone keeps_return)

lemma keeps_OptionImpl_some: "keeps_canonical (OptionImpl_some v)"
  by (simp add: keeps_canonical_def OptionImpl_some_eq canonical_none_alloc
      some_obj_def none_obj_def)

lemma keeps_OptionImpl_none: "keeps_canonical OptionImpl_none"
  by (simp add: OptionImpl_none_def keeps_return)

lemma keeps_new_UnwrapError: "keeps_canonical (new_UnwrapError t)"
  by (simp add: keeps_canonical_def new_UnwrapError_eq canonical_none_alloc
      unwrap_error_obj_def none_obj_def)

lemma keeps_new_Array: "keeps_canonical new_Array"
  by (simp add: keeps_canonical_def new_Array_def canonical_none_alloc none_obj_def)

lemma keeps_Array_push: "keeps_canonical (Array_push x v)"
  by (auto simp: keeps_canonical_def Array_push_def canonical_none_push
      split: val.splits obj.splits)

lemma keeps_all_loop: "keeps_canonical (all_loop xs values)"
proof (induction xs)
  case Nil
  show ?case by (simp add: keeps_OptionImpl_some)
next
  case (Cons x xs)
  show ?case
    by (simp add: keeps_bind keeps_isSome keeps_get_prop keeps_Array_push
        keeps_OptionImpl_none Cons.IH)
qed

lemma keeps_optionDotAll: "keeps_canonical (optionDotAll xs)"
  by (simp add: optionDotAll_def keeps_bind keeps_new_Array keeps_all_loop)

lemma keeps_match:
  "(\<And>args. keeps_canonical (none m args)) \<Longrightarrow> (\<And>args. keeps_canonical (some m args)) \<Longrightarrow>
   keeps_canonical (match x m)"
  by (simp add: match_def keeps_bind keeps_isNone keeps_get_prop)

lemma keeps_expect: "keeps_canonical (expect x message)"
  unfolding expect_def
  by (rule keeps_match)
    (auto intro!: keeps_bind keeps_throw keeps_return keeps_new_UnwrapError split: val.splits)

lemma keeps_map_Option:
  "(\<And>args. keeps_canonical (f args)) \<Longrightarrow> keeps_canonical (map_Option x f)"
  unfolding map_Option_def
  by (rule keeps_match) (simp_all add: keeps_bind keeps_return keeps_OptionImpl_some)

lemma keeps_andThen:
  "(\<And>args. keeps_canonical (f args)) \<Longrightarrow> keeps_canonical (andThen x f)"
  unfolding andThen_def
  by (rule keeps_match) (simp_all add: keeps_OptionImpl_none)

text \<open>
  C5. Every call of \<open>none()\<close>, in any world, returns the same reference \<open>NONE\<close>;
  \<open>andThen\<close> on a none-container and \<open>all\<close> on a sequence with a none-container
  return that reference too. In a store where the none-object is canonical, any two
  none-containers are that reference. The store is canonical when the module has been
  loaded, and \<open>some\<close>, \<open>all\<close>, \<open>expect\<close>, and \<open>map\<close> and \<open>andThen\<close> with callbacks
  that keep it so, keep it so.
\<close>

theorem none_is_one_shared_instance:
  "OptionImpl_none s = (Return NONE, s)
   \<and> option_none s = (Return NONE, s)
   \<and> (holds_none s x \<longrightarrow> andThen x f s = (Return NONE, s))
   \<and> (list_all2 (holds_some s) xs vs \<and> holds_none s n \<longrightarrow>
        fst (optionDotAll (xs @ n # ys) s) = Return NONE)
   \<and> (canonical_none s \<and> holds_none s x \<and> holds_none s y \<longrightarrow> x = NONE \<and> y = NONE)
   \<and> canonical_none module_world
   \<and> keeps_canonical (OptionImpl_some v)
   \<and> keeps_canonical (optionDotAll zs)
   \<and> keeps_canonical (expect x' message)
   \<and> ((\<forall>args. keeps_canonical (g args)) \<longrightarrow>
        keeps_canonical (map_Option x' g) \<and> keeps_canonical (andThen x' g))"
proof -
  have a: "holds_none s x \<longrightarrow> andThen x f s = (Return NONE, s)"
    by (simp add: andThen_def match_none OptionImpl_none_def js_return_def)
  have b: "list_all2 (holds_some s) xs vs \<and> holds_none s n \<longrightarrow>
        fst (optionDotAll (xs @ n # ys) s) = Return NONE"
    by (auto simp: optionDotAll_first_none)
  have c: "canonical_none s \<and> holds_none s x \<and> holds_none s y \<longrightarrow> x = NONE \<and> y = NONE"
    by (auto simp: canonical_none_unique)
  have d: "(\<forall>args. keeps_canonical (g args)) \<longrightarrow>
        keeps_canonical (map_Option x' g) \<and> keeps_canonical (andThen x' g)"
    by (simp add: keeps_map_Option keeps_andThen)
  show ?thesis
    using a b c d
    by (simp add: OptionImpl_none_def option_none_def js_return_def
        canonical_none_module_world keeps_OptionImpl_some keeps_optionDotAll keeps_expect)
qed

theorem none_is_one_shared_instance_witness:
  "option_none module_world = (Return NONE, module_world)
   \<and> option_none example_world = (Return NONE, example_world)
   \<and> holds_none example_world NONE
   \<and> andThen NONE failing_callback example_world = (Return NONE, example_world)
   \<and> list_all2 (holds_some world3) [Ref 1] [Num 1] \<and> holds_none world3 NONE
   \<and> fst (optionDotAll [Ref 1, NONE, Ref 2] world3) = Return NONE
   \<and> canonical_none example_world
   \<and> canonical_none (snd (OptionImpl_some (Num 42) module_world))
   \<and> canonical_none (snd (map_Option (Ref 1) (\<lambda>args. js_return (Num 0)) example_world))"
proof -
  let ?g = "\<lambda>args. js_return (Num 0) :: val js"
  note T1 = none_is_one_shared_instance [where s = world3 and x = NONE and y = NONE
      and f = failing_callback and xs = "[Ref 1]" and vs = "[Num 1]" and n = NONE
      and ys = "[Ref 2]" and v = "Num 42" and zs = "[]" and x' = "Ref 1" and message = Null
      and g = ?g]
  note T2 = none_is_one_shared_instance [where s = example_world and x = NONE and y = NONE
      and f = failing_callback and xs = "[]" and vs = "[]" and n = NONE
      and ys = "[]" and v = "Num 42" and zs = "[]" and x' = "Ref 1" and message = Null
      and g = ?g]
  note T3 = none_is_one_shared_instance [where s = module_world and x = NONE and y = NONE
      and f = failing_callback and xs = "[]" and vs = "[]" and n = NONE
      and ys = "[]" and v = "Num 42" and zs = "[]" and x' = "Ref 1" and message = Null
      and g = ?g]
  have a: "list_all2 (holds_some world3) [Ref 1] [Num 1]"
    using world3_some by simp
  from T1 have "list_all2 (holds_some world3) [Ref 1] [Num 1] \<and> holds_none world3 NONE \<longrightarrow>
      fst (optionDotAll ([Ref 1] @ NONE # [Ref 2]) world3) = Return NONE"
    by (elim conjE)
  with a world3_some(4) have b: "fst (optionDotAll [Ref 1, NONE, Ref 2] world3) = Return NONE"
    by simp
  from T2 have "holds_none example_world NONE \<longrightarrow>
      andThen NONE failing_callback example_world = (Return NONE, example_world)"
    by (elim conjE)
  with holds_none_NONE_example
  have c: "andThen NONE failing_callback example_world = (Return NONE, example_world)"
    by simp
  from T3 have k: "keeps_canonical (OptionImpl_some (Num 42))"
    and m: "canonical_none module_world"
    and f1: "option_none module_world = (Return NONE, module_world)"
    and kg: "(\<forall>args. keeps_canonical (?g args)) \<longrightarrow>
       keeps_canonical (map_Option (Ref 1) ?g) \<and> keeps_canonical (andThen (Ref 1) ?g)"
    by blast+
  from T2 have f2: "option_none example_world = (Return NONE, example_world)"
    by (elim conjE)
  have d: "canonical_none (snd (OptionImpl_some (Num 42) module_world))"
    using k m by (simp add: keeps_canonical_def)
  have "\<forall>args. keeps_canonical (?g args)"
    by (simp add: keeps_canonical_def js_return_def)
  with kg have "keeps_canonical (map_Option (Ref 1) ?g)"
    by simp
  then have e: "canonical_none (snd (map_Option (Ref 1) ?g example_world))"
    using canonical_none_example by (simp add: keeps_canonical_def)
  show ?thesis
    using a b c d e f1 f2 holds_none_NONE_example world3_some(4) canonical_none_example
    by (intro conjI)
qed

end
